theory Spec2Isabelle
  imports Complex_Main "HOL-Library.AList" "HOL-Library.Sublist"
begin

section \<open>Strings\<close>

text \<open>
  A Python \<^verbatim>\<open>str\<close> is modelled as a \<^typ>\<open>string\<close>; a character stands for the code
  point of the same number, so the model covers the texts whose code points are below 256.
  \<^verbatim>\<open>str.isspace\<close>, which decides both \<^verbatim>\<open>str.strip()\<close> and the regular expression
  class \<^verbatim>\<open>\s\<close>, holds on that range for the code points 9-13, 28-32, 133 and 160.
\<close>

definition isspace :: "char \<Rightarrow> bool" where
  "isspace c =
     (let n = (of_char c :: nat)
      in (9 \<le> n \<and> n \<le> 13) \<or> (28 \<le> n \<and> n \<le> 32) \<or> n = 133 \<or> n = 160)"

text \<open>
  The class \<^verbatim>\<open>\w\<close> of a \<^verbatim>\<open>str\<close> pattern: the alphanumeric code points and the
  underscore.
\<close>

definition is_word :: "char \<Rightarrow> bool" where
  "is_word c =
     (let n = (of_char c :: nat)
      in (48 \<le> n \<and> n \<le> 57) \<or> (65 \<le> n \<and> n \<le> 90) \<or> n = 95 \<or> (97 \<le> n \<and> n \<le> 122)
         \<or> n = 170 \<or> n = 178 \<or> n = 179 \<or> n = 181 \<or> n = 185 \<or> n = 186
         \<or> (188 \<le> n \<and> n \<le> 190) \<or> (192 \<le> n \<and> n \<le> 214)
         \<or> (216 \<le> n \<and> n \<le> 246) \<or> (248 \<le> n \<and> n \<le> 255))"

text \<open>\<^verbatim>\<open>s.strip()\<close>: leading and trailing whitespace removed.\<close>

definition strip :: "string \<Rightarrow> string" where
  "strip s = rev (dropWhile isspace (rev (dropWhile isspace s)))"

text \<open>\<^verbatim>\<open>s.rfind(c, lo, hi)\<close>: the highest index in \<open>[lo, hi)\<close> holding \<open>c\<close>, or \<open>-1\<close>.\<close>

definition rfind :: "string \<Rightarrow> char \<Rightarrow> nat \<Rightarrow> nat \<Rightarrow> int" where
  "rfind s c lo hi =
     (case filter (\<lambda>i. s ! i = c) (rev [lo..<min hi (length s)]) of
        [] \<Rightarrow> - 1
      | i # _ \<Rightarrow> int i)"

text \<open>\<^verbatim>\<open>xs[lo:hi]\<close> for indices that are not negative.\<close>

definition slice :: "'a list \<Rightarrow> nat \<Rightarrow> nat \<Rightarrow> 'a list" where
  "slice xs lo hi = take (hi - lo) (drop lo xs)"

text \<open>\<^verbatim>\<open>s.split(d)\<close> for a separator of one character.\<close>

fun split_on :: "char \<Rightarrow> string \<Rightarrow> string list" where
  "split_on d [] = [[]]"
| "split_on d (c # cs) =
     (if c = d then [] # split_on d cs
      else (let r = split_on d cs in (c # hd r) # tl r))"

text \<open>\<^verbatim>\<open>sep.join(xs)\<close>.\<close>

fun join :: "string \<Rightarrow> string list \<Rightarrow> string" where
  "join sep [] = []"
| "join sep [x] = x"
| "join sep (x # y # ys) = x @ sep @ join sep (y # ys)"

section \<open>PDFProcessor\<close>

record processor =
  chunk_size :: nat
  overlap :: nat

definition PDFProcessor_init :: processor where
  "PDFProcessor_init = \<lparr>chunk_size = 500, overlap = 50\<rparr>"

record chunk =
  c_id :: int
  c_text :: string
  c_start_pos :: nat
  c_end_pos :: nat
  c_length :: nat

subsection \<open>preprocess\_text\<close>

text \<open>\<^verbatim>\<open>re.sub(r'\s+', ' ', text)\<close>: every maximal run of whitespace becomes one space.\<close>

function collapse_ws :: "string \<Rightarrow> string" where
  "collapse_ws [] = []"
| "collapse_ws (c # cs) =
     (if isspace c then CHR '' '' # collapse_ws (dropWhile isspace cs)
      else c # collapse_ws cs)"
  by pat_completeness auto
termination
  by (relation "measure length") (auto simp: length_dropWhile_le less_Suc_eq_le)

text \<open>
  \<^verbatim>\<open>re.sub(r'[^\w\s\.\,\!\?\;\:\-\(\)]', '', text)\<close>: the characters outside the class
  are deleted.
\<close>

definition kept :: "char \<Rightarrow> bool" where
  "kept c = (is_word c \<or> isspace c \<or> c \<in> set ''.,!?;:-()'')"

definition remove_special :: "string \<Rightarrow> string" where
  "remove_special s = filter kept s"

definition preprocess_text :: "string \<Rightarrow> string" where
  "preprocess_text text0 =
     (let text1 = collapse_ws text0;
          text2 = remove_special text1;
          lines = split_on (CHR 0x0A) text2;
          cleaned_lines = filter (\<lambda>line. 10 < length line) (map strip lines);
          text3 = join '' '' cleaned_lines
      in strip text3)"

subsection \<open>chunk\_text\<close>

text \<open>The end of the chunk that starts at \<open>start\<close>: lines 94 to 106 of the loop body.\<close>

definition chunk_end :: "processor \<Rightarrow> string \<Rightarrow> nat \<Rightarrow> nat" where
  "chunk_end p t start =
     (let text_length = length t;
          e = min (start + chunk_size p) text_length
      in if e < text_length then
           (let last_period = rfind t (CHR ''.'') start e;
                last_exclamation = rfind t (CHR ''!'') start e;
                last_question = rfind t (CHR ''?'') start e;
                sentence_end = max last_period (max last_exclamation last_question)
            in if sentence_end > int start + int (chunk_size p div 2)
               then nat (sentence_end + 1) else e)
         else e)"

text \<open>\<^verbatim>\<open>start = max(start + self.chunk_size - self.overlap, end)\<close>, computed on integers.\<close>

definition next_start :: "processor \<Rightarrow> nat \<Rightarrow> nat \<Rightarrow> nat" where
  "next_start p start e =
     nat (max (int start + int (chunk_size p) - int (overlap p)) (int e))"

text \<open>
  The \<^verbatim>\<open>while start < text_length\<close> loop. It need not end for every processor (a
  chunk size of 0 never advances), so the loop is a partial function and \<open>None\<close> stands
  for a run that does not return.
\<close>

partial_function (option) chunk_loop ::
  "processor \<Rightarrow> string \<Rightarrow> nat \<Rightarrow> int \<Rightarrow> chunk list \<Rightarrow> chunk list option" where
  "chunk_loop p t start cid chunks =
     (if start < length t then
        (let e = chunk_end p t start;
             ct = strip (slice t start e)
         in if ct \<noteq> [] then
              chunk_loop p t (next_start p start e) (cid + 1)
                (chunks @ [\<lparr>c_id = cid, c_text = ct, c_start_pos = start,
                            c_end_pos = e, c_length = length ct\<rparr>])
            else chunk_loop p t (next_start p start e) cid chunks)
      else Some chunks)"

definition chunk_text :: "processor \<Rightarrow> string \<Rightarrow> chunk list option" where
  "chunk_text p t = chunk_loop p t 0 0 []"

section \<open>Python values\<close>

text \<open>The exceptions the modelled code raises or receives from its collaborators.\<close>

datatype error =
  IndexError | ModelLoadError | EncodeError | SearchError | SaveError | ExtractionError

text \<open>\<^verbatim>\<open>xs[i]\<close>: a negative index counts from the end, an index out of range raises.\<close>

definition py_index :: "'a list \<Rightarrow> int \<Rightarrow> error + 'a" where
  "py_index xs i =
     (let n = int (length xs)
      in if 0 \<le> i \<and> i < n then Inr (xs ! nat i)
         else if - n \<le> i \<and> i < 0 then Inr (xs ! nat (n + i))
         else Inl IndexError)"

text \<open>The values of a metadata dictionary, and \<^verbatim>\<open>str()\<close> of them.\<close>

datatype pyval = Str string | Num int

type_synonym metadata = "(string \<times> pyval) list"

definition digit_char :: "nat \<Rightarrow> char" where
  "digit_char d = char_of (48 + d)"

function str_nat :: "nat \<Rightarrow> string" where
  "str_nat n = (if n < 10 then [digit_char n] else str_nat (n div 10) @ [digit_char (n mod 10)])"
  by pat_completeness auto
termination
  by (relation "measure id") auto

definition str_int :: "int \<Rightarrow> string" where
  "str_int i = (if i < 0 then CHR ''-'' # str_nat (nat (- i)) else str_nat (nat i))"

fun py_str :: "pyval \<Rightarrow> string" where
  "py_str (Str s) = s"
| "py_str (Num i) = str_int i"

text \<open>\<^verbatim>\<open>d.get(key, default)\<close>.\<close>

definition dict_get :: "('k \<times> 'v) list \<Rightarrow> 'k \<Rightarrow> 'v \<Rightarrow> 'v" where
  "dict_get d key dflt = (case map_of d key of None \<Rightarrow> dflt | Some v \<Rightarrow> v)"

subsection \<open>Single precision\<close>

text \<open>
  The scores the index returns are \<^verbatim>\<open>np.float32\<close> values; the model takes each as the
  real number it denotes. A threshold is a Python \<^verbatim>\<open>float\<close>. NumPy evaluates
  \<^verbatim>\<open>score >= score_threshold\<close> in single precision: it first rounds the threshold to
  the nearest \<^verbatim>\<open>float32\<close>, ties to the even significand. A \<^verbatim>\<open>float32\<close> has a
  significand of 24 bits and a least exponent of \<open>-126\<close>, below which the spacing stays
  \<open>2 powr - 149\<close>; a threshold that rounds beyond the largest finite value becomes an
  infinity, which no score reaches and every score exceeds.
\<close>

definition round_half_even :: "real \<Rightarrow> int" where
  "round_half_even r =
     (let f = \<lfloor>r\<rfloor>; d = r - of_int f
      in if d < 1 / 2 then f
         else if 1 / 2 < d then f + 1
         else if even f then f else f + 1)"

definition float32_ulp :: "real \<Rightarrow> real" where
  "float32_ulp x = 2 powr (of_int (max \<lfloor>log 2 \<bar>x\<bar>\<rfloor> (- 126)) - 23)"

definition float32_round :: "real \<Rightarrow> real" where
  "float32_round x =
     (if x = 0 then 0
      else float32_ulp x * of_int (round_half_even (x / float32_ulp x)))"

definition float32_max :: real where
  "float32_max = (2 ^ 24 - 1) * 2 ^ 104"

definition np_float32_ge :: "real \<Rightarrow> real \<Rightarrow> bool" where
  "np_float32_ge score threshold =
     (let t = float32_round threshold
      in if float32_max < t then False
         else if t < - float32_max then True
         else t \<le> score)"

section \<open>SemanticSearchEngine\<close>

record scored_chunk = chunk +
  similarity_score :: real
  rank :: nat

record context_chunk = chunk +
  is_context :: bool

text \<open>
  The engine's state is its chunk list and the FAISS index. The index and the embedding
  model are external: the model keeps the number of vectors in the index and, as
  \<open>index_search e query k\<close>, what \<^verbatim>\<open>encode_texts([query])\<close> followed by
  \<^verbatim>\<open>self.index.search(query_embedding, k)\<close> gives: the pairs
  \<^verbatim>\<open>zip(scores[0], indices[0])\<close>, or the exception one of the two calls raised.
\<close>

record engine =
  eng_chunks :: "chunk list"
  ntotal :: nat
  index_search :: "string \<Rightarrow> nat \<Rightarrow> error + (real \<times> int) list"

text \<open>
  The loop of \<open>search\<close> over the enumerated pairs; \<open>i\<close> is the position that
  \<^verbatim>\<open>enumerate\<close> counts. The test \<^verbatim>\<open>score >= score_threshold\<close> is the comparison in
  single precision. An exception leaves the loop.
\<close>

fun search_loop ::
  "chunk list \<Rightarrow> real \<Rightarrow> nat \<Rightarrow> (real \<times> int) list \<Rightarrow> error + scored_chunk list" where
  "search_loop cs thr i [] = Inr []"
| "search_loop cs thr i ((score, idx) # rest) =
     (if idx \<noteq> - 1 \<and> np_float32_ge score thr then
        (case py_index cs idx of
           Inl err \<Rightarrow> Inl err
         | Inr c \<Rightarrow>
             (case search_loop cs thr (i + 1) rest of
                Inl err \<Rightarrow> Inl err
              | Inr results \<Rightarrow>
                  Inr (\<lparr>c_id = c_id c, c_text = c_text c, c_start_pos = c_start_pos c,
                        c_end_pos = c_end_pos c, c_length = c_length c,
                        similarity_score = score, rank = i + 1\<rparr> # results)))
      else search_loop cs thr (i + 1) rest)"

text \<open>\<open>search\<close> catches every exception and returns the empty list then.\<close>

definition search :: "engine \<Rightarrow> string \<Rightarrow> nat \<Rightarrow> real \<Rightarrow> scored_chunk list" where
  "search e query k score_threshold =
     (if ntotal e = 0 then []
      else (case index_search e query k of
              Inl err \<Rightarrow> []
            | Inr raw \<Rightarrow>
                (case search_loop (eng_chunks e) score_threshold 0 raw of
                   Inl err \<Rightarrow> []
                 | Inr results \<Rightarrow> results)))"

definition default_score_threshold :: real where
  "default_score_threshold = 3 / 10"

text \<open>
  For the statements about \<open>search\<close>: the entries of the index's answer that pass the
  test of the loop, each with its position in the answer; whether a position resolves
  to a chunk, and the chunk it resolves to; and a chunk with its score and rank.
\<close>

definition kept_entries :: "real \<Rightarrow> (real \<times> int) list \<Rightarrow> (nat \<times> real \<times> int) list" where
  "kept_entries thr raw =
     filter (\<lambda>(i, score, idx). idx \<noteq> - 1 \<and> np_float32_ge score thr) (enumerate 0 raw)"

definition resolves :: "'a list \<Rightarrow> int \<Rightarrow> bool" where
  "resolves cs idx = (- int (length cs) \<le> idx \<and> idx < int (length cs))"

definition chunk_at :: "'a list \<Rightarrow> int \<Rightarrow> 'a" where
  "chunk_at cs idx = cs ! nat (if idx < 0 then int (length cs) + idx else idx)"

definition with_score :: "chunk \<Rightarrow> real \<Rightarrow> nat \<Rightarrow> scored_chunk" where
  "with_score c score r =
     \<lparr>c_id = c_id c, c_text = c_text c, c_start_pos = c_start_pos c,
      c_end_pos = c_end_pos c, c_length = c_length c, similarity_score = score, rank = r\<rparr>"


text \<open>
  \<open>get_context_window\<close>: the set \<open>expanded_ids\<close> after the loop over the hit ids, and
  the loop over \<^verbatim>\<open>sorted(expanded_ids)\<close> that looks each id up in \<^verbatim>\<open>self.chunks\<close>.
\<close>

definition expanded_ids :: "nat \<Rightarrow> int list \<Rightarrow> int \<Rightarrow> int set" where
  "expanded_ids n chunk_ids window_size =
     fold (\<lambda>chunk_id ids.
             insert chunk_id ids \<union>
             {max 0 (chunk_id - window_size) ..< min (int n) (chunk_id + window_size + 1)})
          chunk_ids {}"

fun expand_chunks :: "chunk list \<Rightarrow> int list \<Rightarrow> int list \<Rightarrow> error + context_chunk list" where
  "expand_chunks cs chunk_ids [] = Inr []"
| "expand_chunks cs chunk_ids (chunk_id # rest) =
     (case py_index cs chunk_id of
        Inl err \<Rightarrow> Inl err
      | Inr c \<Rightarrow>
          (case expand_chunks cs chunk_ids rest of
             Inl err \<Rightarrow> Inl err
           | Inr expanded \<Rightarrow>
               Inr (\<lparr>c_id = c_id c, c_text = c_text c, c_start_pos = c_start_pos c,
                     c_end_pos = c_end_pos c, c_length = c_length c,
                     is_context = (chunk_id \<notin> set chunk_ids)\<rparr> # expanded)))"

definition get_context_window ::
  "engine \<Rightarrow> 'a chunk_scheme list \<Rightarrow> int \<Rightarrow> error + context_chunk list" where
  "get_context_window e chunks window_size =
     (if chunks = [] then Inr []
      else (let chunk_ids = map c_id chunks;
                ids = expanded_ids (length (eng_chunks e)) chunk_ids window_size
            in expand_chunks (eng_chunks e) chunk_ids (sorted_list_of_set ids)))"

section \<open>DocumentStore\<close>

record doc_info =
  di_chunks :: "chunk list"
  di_metadata :: metadata
  di_created_at :: string

text \<open>
  The two dictionaries keep insertion order, which the listing shows, so they are
  association lists; an assignment to a key replaces its value in place or appends.
\<close>

record doc_store =
  storage_path :: string
  documents :: "(string \<times> doc_info) list"
  search_engines :: "(string \<times> engine) list"

text \<open>
  What the collaborators of \<open>add_document\<close> do: whether the SentenceTransformer model
  loads, whether encoding the chunk texts and adding them to the index succeeds, how the
  index built from the chunks answers a search, whether writing the index and the pickle
  file under the storage path succeeds, and the clock.
\<close>

record backend =
  model_loads :: bool
  build_ok :: "chunk list \<Rightarrow> bool"
  built_index :: "chunk list \<Rightarrow> string \<Rightarrow> nat \<Rightarrow> error + (real \<times> int) list"
  save_ok :: "string \<Rightarrow> string \<Rightarrow> bool"
  now :: string

definition add_document ::
  "backend \<Rightarrow> doc_store \<Rightarrow> string \<Rightarrow> chunk list \<Rightarrow> metadata option \<Rightarrow> (error + unit) \<times> doc_store" where
  "add_document be s doc_id chunks md =
     (if \<not> model_loads be then (Inl ModelLoadError, s)
      else if \<not> build_ok be chunks then (Inl EncodeError, s)
      else
        (let search_engine = \<lparr>eng_chunks = chunks, ntotal = length chunks,
                               index_search = built_index be chunks\<rparr>;
             info = \<lparr>di_chunks = chunks,
                      di_metadata = (case md of None \<Rightarrow> [] | Some m \<Rightarrow> m),
                      di_created_at = now be\<rparr>;
             s1 = s\<lparr>documents := AList.update doc_id info (documents s)\<rparr>;
             s2 = s1\<lparr>search_engines := AList.update doc_id search_engine (search_engines s1)\<rparr>
         in if \<not> save_ok be (storage_path s) doc_id then (Inl SaveError, s2)
            else (Inr (), s2)))"

definition search_document :: "doc_store \<Rightarrow> string \<Rightarrow> string \<Rightarrow> nat \<Rightarrow> scored_chunk list" where
  "search_document s doc_id query k =
     (case map_of (search_engines s) doc_id of
        None \<Rightarrow> []
      | Some e \<Rightarrow> search e query k default_score_threshold)"

record doc_listing =
  dl_id :: string
  dl_metadata :: metadata
  dl_chunk_count :: nat
  dl_created_at :: string

definition get_document_list :: "doc_store \<Rightarrow> doc_listing list" where
  "get_document_list s =
     map (\<lambda>(doc_id, doc_info).
            \<lparr>dl_id = doc_id, dl_metadata = di_metadata doc_info,
             dl_chunk_count = length (di_chunks doc_info),
             dl_created_at = di_created_at doc_info\<rparr>)
         (documents s)"

section \<open>LLMAnswerGenerator\<close>

text \<open>
  The two generation calls are external; each catches its own exceptions and returns an
  optional string. \<open>generate_follow_up_questions\<close> only feeds the result bundle and is
  kept as a function of the question and the answer.
\<close>

record generator =
  use_watson :: bool
  call_watson_api :: "string \<Rightarrow> string option"
  generate_with_fallback :: "string \<Rightarrow> string option"
  generate_follow_up_questions :: "string \<Rightarrow> string \<Rightarrow> string list"

definition newline :: string where
  "newline = [CHR 0x0A]"

fun context_blocks :: "nat \<Rightarrow> 'a chunk_scheme list \<Rightarrow> string" where
  "context_blocks i [] = []"
| "context_blocks i (c # cs) =
     ''[Context '' @ str_nat i @ '']'' @ newline @ c_text c @ newline @ newline
       @ context_blocks (i + 1) cs"

definition create_context_prompt :: "string \<Rightarrow> 'a chunk_scheme list \<Rightarrow> string \<Rightarrow> string" where
  "create_context_prompt question context_chunks document_title =
     (let context_text = context_blocks 1 (take 5 context_chunks)
      in ''You are StudyMate, an AI academic assistant that helps students understand their study materials. You have been provided with relevant excerpts from ''
         @ [CHR 0x22] @ document_title @ [CHR 0x22]
         @ '' to answer the student's question.'' @ newline @ newline
         @ ''Context from the document:'' @ newline
         @ context_text @ newline @ newline
         @ ''Student's Question: '' @ question @ newline @ newline
         @ ''Instructions:'' @ newline
         @ ''- Provide a clear, accurate answer based on the provided context'' @ newline
         @ ''- Reference specific information from the context when relevant'' @ newline
         @ ''- If the context doesn't contain enough information, say so honestly'' @ newline
         @ ''- Use an educational tone that helps the student learn'' @ newline
         @ ''- Keep your answer concise but comprehensive'' @ newline @ newline
         @ ''Answer:'')"

record source =
  src_chunk_id :: int
  src_similarity_score :: real
  text_preview :: string

record answer_result =
  ans_answer :: string
  ans_question :: string
  ans_document_title :: string
  ans_context_chunks_used :: nat
  ans_model_used :: string
  ans_timestamp :: string
  ans_sources :: "source list"

definition make_source :: "scored_chunk \<Rightarrow> source" where
  "make_source c =
     \<lparr>src_chunk_id = c_id c,
      src_similarity_score = similarity_score c,
      text_preview = (if length (c_text c) > 100 then take 100 (c_text c) @ ''...''
                      else c_text c)\<rparr>"

text \<open>
  \<open>generate_answer\<close>, its \<^verbatim>\<open>try\<close> branch: with chunks that all carry a text nothing in
  it raises. The time stamp is the clock's.
\<close>

definition generate_answer ::
  "generator \<Rightarrow> string \<Rightarrow> scored_chunk list \<Rightarrow> string \<Rightarrow> string \<Rightarrow> answer_result" where
  "generate_answer g question context_chunks document_title timestamp =
     (let prompt = create_context_prompt question context_chunks document_title;
          generated = (if use_watson g then call_watson_api g prompt
                       else generate_with_fallback g prompt);
          answer = (case generated of
                      None \<Rightarrow> ''I apologize, but I'm unable to generate an answer at this time. Please try rephrasing your question or check your connection.''
                    | Some a \<Rightarrow>
                        if a = [] then ''I apologize, but I'm unable to generate an answer at this time. Please try rephrasing your question or check your connection.''
                        else a)
      in \<lparr>ans_answer = answer, ans_question = question,
          ans_document_title = document_title,
          ans_context_chunks_used = length context_chunks,
          ans_model_used = (if use_watson g then ''IBM Watson Mixtral-8x7B'' else ''Fallback Model''),
          ans_timestamp = timestamp,
          ans_sources = map make_source (take 3 context_chunks)\<rparr>)"

section \<open>StudyMateQASystem\<close>

record conversation_entry =
  ce_question :: string
  ce_answer :: string
  ce_timestamp :: string
  ce_document_id :: string

record qa_system =
  pdf_processor :: processor
  document_store :: doc_store
  answer_generator :: generator
  current_document :: "string option"
  conversation_history :: "conversation_entry list"

text \<open>
  What reading one path gives: the id \<open>_generate_document_id\<close> derives from the file,
  the metadata \<open>get_document_metadata\<close> returns (it catches its own exceptions), and
  the text \<open>extract_text_from_pdf\<close> returns, or its exception.
\<close>

record pdf_file =
  generated_id :: string
  file_metadata :: metadata
  extracted :: "error + string"

record upload_result =
  up_success :: bool
  up_document_id :: "string option"
  up_message :: string
  up_is_new :: "bool option"
  up_title :: "pyval option"
  up_author :: "pyval option"
  up_page_count :: "pyval option"
  up_chunk_count :: "nat option"
  up_total_characters :: "nat option"
  up_error :: "error option"

definition upload_failed :: "error \<Rightarrow> upload_result" where
  "upload_failed err =
     \<lparr>up_success = False, up_document_id = None, up_message = ''Failed to process document'',
      up_is_new = None, up_title = None, up_author = None, up_page_count = None,
      up_chunk_count = None, up_total_characters = None, up_error = Some err\<rparr>"

text \<open>
  \<open>upload_document\<close>. The result is \<open>None\<close> when the chunking loop does not return.
  An exception of the extraction or of \<open>add_document\<close> is caught and reported; what
  \<open>add_document\<close> did to the store before raising stays.
\<close>

definition upload_document ::
  "backend \<Rightarrow> qa_system \<Rightarrow> pdf_file \<Rightarrow> string option \<Rightarrow> (upload_result \<times> qa_system) option" where
  "upload_document be qa pdf document_title =
     (let doc_id = generated_id pdf;
          existing_docs = get_document_list (document_store qa)
      in if list_ex (\<lambda>doc. dl_id doc = doc_id) existing_docs then
           Some (\<lparr>up_success = True, up_document_id = Some doc_id,
                  up_message = ''Document already processed'', up_is_new = Some False,
                  up_title = None, up_author = None, up_page_count = None,
                  up_chunk_count = None, up_total_characters = None, up_error = None\<rparr>,
                 qa\<lparr>current_document := Some doc_id\<rparr>)
         else
           (let metadata = (case document_title of
                              None \<Rightarrow> file_metadata pdf
                            | Some title \<Rightarrow>
                                if title = [] then file_metadata pdf
                                else AList.update ''title'' (Str title) (file_metadata pdf))
            in case extracted pdf of
                 Inl err \<Rightarrow> Some (upload_failed err, qa)
               | Inr raw_text \<Rightarrow>
                   (let full_text = preprocess_text raw_text
                    in case chunk_text (pdf_processor qa) full_text of
                         None \<Rightarrow> None
                       | Some chunks \<Rightarrow>
                           (case add_document be (document_store qa) doc_id chunks (Some metadata) of
                              (Inl err, store) \<Rightarrow>
                                Some (upload_failed err, qa\<lparr>document_store := store\<rparr>)
                            | (Inr _, store) \<Rightarrow>
                                Some (\<lparr>up_success = True, up_document_id = Some doc_id,
                                       up_message = ''Document processed successfully'',
                                       up_is_new = Some True,
                                       up_title = Some (dict_get metadata ''title'' (Str ''Unknown'')),
                                       up_author = Some (dict_get metadata ''author'' (Str ''Unknown'')),
                                       up_page_count = Some (dict_get metadata ''page_count'' (Num 0)),
                                       up_chunk_count = Some (length chunks),
                                       up_total_characters = Some (length full_text),
                                       up_error = None\<rparr>,
                                      qa\<lparr>document_store := store,
                                         current_document := Some doc_id,
                                         conversation_history := []\<rparr>)))))"

record ask_result =
  ask_success :: bool
  ask_message :: "string option"
  ask_question_text :: string
  ask_answer :: "string option"
  ask_document_id :: "string option"
  ask_document_title :: "pyval option"
  ask_sources :: "source list"
  ask_context_chunks_used :: "nat option"
  ask_follow_up_questions :: "string list"
  ask_model_used :: "string option"
  ask_timestamp :: "string option"

text \<open>
  \<open>ask_question\<close>. Every call inside its \<^verbatim>\<open>try\<close> catches its own exceptions, so the
  \<^verbatim>\<open>except\<close> branch is never taken. \<open>timestamp\<close> is the clock's reading.
\<close>

definition ask_question ::
  "qa_system \<Rightarrow> string \<Rightarrow> string option \<Rightarrow> nat \<Rightarrow> string \<Rightarrow> ask_result \<times> qa_system" where
  "ask_question qa question document_id0 max_context_chunks timestamp =
     (let document_id = (case document_id0 of None \<Rightarrow> current_document qa | Some d \<Rightarrow> Some d)
      in case document_id of
           None \<Rightarrow>
             (\<lparr>ask_success = False,
               ask_message = Some ''No document selected. Please upload a document first.'',
               ask_question_text = question, ask_answer = None, ask_document_id = None,
               ask_document_title = None, ask_sources = [], ask_context_chunks_used = None,
               ask_follow_up_questions = [], ask_model_used = None,
               ask_timestamp = None\<rparr>, qa)
         | Some doc_id \<Rightarrow>
             (let context_chunks =
                    search_document (document_store qa) doc_id question max_context_chunks
              in if context_chunks = [] then
                   (\<lparr>ask_success = False,
                     ask_message = Some ''No relevant information found in the document.'',
                     ask_question_text = question, ask_answer = None,
                     ask_document_id = Some doc_id, ask_document_title = None,
                     ask_sources = [], ask_context_chunks_used = None,
                     ask_follow_up_questions = [], ask_model_used = None,
                     ask_timestamp = None\<rparr>, qa)
                 else
                   (let doc_list = get_document_list (document_store qa);
                        doc_title =
                          (case find (\<lambda>doc. dl_id doc = doc_id) doc_list of
                             None \<Rightarrow> Str ''Document''
                           | Some doc \<Rightarrow> dict_get (dl_metadata doc) ''title'' (Str ''Document''));
                        answer_result =
                          generate_answer (answer_generator qa) question context_chunks
                            (py_str doc_title) timestamp;
                        follow_ups =
                          generate_follow_up_questions (answer_generator qa) question
                            (ans_answer answer_result)
                    in (\<lparr>ask_success = True, ask_message = None,
                         ask_question_text = question,
                         ask_answer = Some (ans_answer answer_result),
                         ask_document_id = Some doc_id,
                         ask_document_title = Some doc_title,
                         ask_sources = ans_sources answer_result,
                         ask_context_chunks_used = Some (length context_chunks),
                         ask_follow_up_questions = follow_ups,
                         ask_model_used = Some (ans_model_used answer_result),
                         ask_timestamp = Some timestamp\<rparr>,
                        qa\<lparr>conversation_history :=
                             conversation_history qa @
                             [\<lparr>ce_question = question, ce_answer = ans_answer answer_result,
                               ce_timestamp = timestamp, ce_document_id = doc_id\<rparr>]\<rparr>))))"

definition clear_conversation_history :: "qa_system \<Rightarrow> qa_system" where
  "clear_conversation_history qa = qa\<lparr>conversation_history := []\<rparr>"

record select_result =
  sel_success :: bool
  sel_document_id :: "string option"
  sel_title :: "pyval option"
  sel_message :: string

definition select_document :: "qa_system \<Rightarrow> string \<Rightarrow> select_result \<times> qa_system" where
  "select_document qa document_id =
     (let doc_list = get_document_list (document_store qa)
      in case find (\<lambda>doc. dl_id doc = document_id) doc_list of
           None \<Rightarrow>
             (\<lparr>sel_success = False, sel_document_id = None, sel_title = None,
               sel_message = ''Document not found''\<rparr>, qa)
         | Some doc_info \<Rightarrow>
             (\<lparr>sel_success = True, sel_document_id = Some document_id,
               sel_title = Some (dict_get (dl_metadata doc_info) ''title'' (Str ''Unknown'')),
               sel_message = ''Document selected successfully''\<rparr>,
              clear_conversation_history (qa\<lparr>current_document := Some document_id\<rparr>)))"

section \<open>Well-formed chunk lists and example states\<close>

text \<open>
  The chunk lists that \<open>chunk_text\<close> builds number their chunks by position: the chunk
  at position \<open>i\<close> has id \<open>i\<close>.
\<close>

definition dense_ids :: "chunk list \<Rightarrow> bool" where
  "dense_ids cs = (map c_id cs = map int [0..<length cs])"

text \<open>Concrete inputs, used where a statement is evaluated.\<close>

definition text_1200 :: string where
  "text_1200 = replicate 1200 (CHR ''a'')"

definition notes_chunks :: "chunk list" where
  "notes_chunks = [\<lparr>c_id = 0, c_text = ''Lecture notes about graphs.'', c_start_pos = 0,
                    c_end_pos = 27, c_length = 27\<rparr>]"

definition two_chunks :: "chunk list" where
  "two_chunks =
     [\<lparr>c_id = 0, c_text = ''A tree is a connected acyclic graph.'', c_start_pos = 0,
       c_end_pos = 36, c_length = 36\<rparr>,
      \<lparr>c_id = 1, c_text = ''A tree is a connected acyclic graph.'', c_start_pos = 36,
       c_end_pos = 72, c_length = 36\<rparr>]"

text \<open>An index over two chunks with equal texts, which answers with equal scores.\<close>

definition tie_engine :: engine where
  "tie_engine = \<lparr>eng_chunks = two_chunks, ntotal = 2,
                  index_search = (\<lambda>query k. Inr [(9 / 10, 1), (9 / 10, 0)])\<rparr>"

definition five_chunks :: "chunk list" where
  "five_chunks =
     [\<lparr>c_id = 0, c_text = ''zero'', c_start_pos = 0, c_end_pos = 4, c_length = 4\<rparr>,
      \<lparr>c_id = 1, c_text = ''one'', c_start_pos = 4, c_end_pos = 7, c_length = 3\<rparr>,
      \<lparr>c_id = 2, c_text = ''two'', c_start_pos = 7, c_end_pos = 10, c_length = 3\<rparr>,
      \<lparr>c_id = 3, c_text = ''three'', c_start_pos = 10, c_end_pos = 15, c_length = 5\<rparr>,
      \<lparr>c_id = 4, c_text = ''four'', c_start_pos = 15, c_end_pos = 19, c_length = 4\<rparr>]"

definition five_engine :: engine where
  "five_engine = \<lparr>eng_chunks = five_chunks, ntotal = 5,
                   index_search = (\<lambda>query k. Inr [(9 / 10, 3)])\<rparr>"

text \<open>
  An index over the five chunks that answers with a tie at the top and two entries
  below 0.3.
\<close>

definition ranked_answer :: "(real \<times> int) list" where
  "ranked_answer = [(7 / 8, 2), (7 / 8, 0), (1 / 2, 4), (1 / 4, 1), (1 / 8, 3)]"

definition ranked_engine :: engine where
  "ranked_engine = \<lparr>eng_chunks = five_chunks, ntotal = 5,
                     index_search = (\<lambda>query k. Inr ranked_answer)\<rparr>"


text \<open>An index whose only chunk scores exactly one half.\<close>

definition half_engine :: engine where
  "half_engine = \<lparr>eng_chunks = notes_chunks, ntotal = 1,
                   index_search = (\<lambda>query k. Inr [(1 / 2, 0)])\<rparr>"

definition hit_three :: scored_chunk where
  "hit_three = \<lparr>c_id = 3, c_text = ''three'', c_start_pos = 10, c_end_pos = 15, c_length = 5,
                similarity_score = 9 / 10, rank = 1\<rparr>"

definition long_hit :: scored_chunk where
  "long_hit = \<lparr>c_id = 0, c_text = replicate 101 (CHR ''a''), c_start_pos = 0, c_end_pos = 101,
               c_length = 101, similarity_score = 9 / 10, rank = 1\<rparr>"

definition demo_generator :: generator where
  "demo_generator = \<lparr>use_watson = False, call_watson_api = (\<lambda>prompt. None),
     generate_with_fallback = (\<lambda>prompt. Some ''An answer.''),
     generate_follow_up_questions = (\<lambda>question answer. [])\<rparr>"

definition ok_backend :: backend where
  "ok_backend = \<lparr>model_loads = True, build_ok = (\<lambda>chunks. True),
      built_index = (\<lambda>chunks query k. Inr [(9 / 10, 0)]), save_ok = (\<lambda>path doc_id. True),
      now = ''2024-01-01T00:00:00''\<rparr>"

text \<open>A backend whose disk is full: the index builds, writing it fails.\<close>

definition disk_full_backend :: backend where
  "disk_full_backend = \<lparr>model_loads = True, build_ok = (\<lambda>chunks. True),
      built_index = (\<lambda>chunks query k. Inr [(9 / 10, 0)]), save_ok = (\<lambda>path doc_id. False),
      now = ''2024-01-01T00:00:00''\<rparr>"

definition empty_store :: doc_store where
  "empty_store = \<lparr>storage_path = ''/workspace/data'', documents = [], search_engines = []\<rparr>"

text \<open>An engine whose only chunk scores 0.2, below the threshold.\<close>

definition notes_engine :: engine where
  "notes_engine = \<lparr>eng_chunks = notes_chunks, ntotal = 1,
                    index_search = (\<lambda>query k. Inr [(2 / 10, 0)])\<rparr>"

definition notes_info :: doc_info where
  "notes_info = \<lparr>di_chunks = notes_chunks, di_metadata = [(''title'', Str ''Graphs'')],
                  di_created_at = ''2024-01-01T00:00:00''\<rparr>"

definition two_doc_store :: doc_store where
  "two_doc_store = \<lparr>storage_path = ''/workspace/data'',
     documents = [(''a.pdf_11111111'', notes_info), (''b.pdf_22222222'', notes_info)],
     search_engines = [(''a.pdf_11111111'', notes_engine), (''b.pdf_22222222'', notes_engine)]\<rparr>"

definition b_entry :: conversation_entry where
  "b_entry = \<lparr>ce_question = ''What is a tree?'', ce_answer = ''A connected acyclic graph.'',
               ce_timestamp = ''2024-01-01T00:00:00'', ce_document_id = ''b.pdf_22222222''\<rparr>"

text \<open>A session on document b with one question answered.\<close>

definition qa_on_b :: qa_system where
  "qa_on_b = \<lparr>pdf_processor = PDFProcessor_init, document_store = two_doc_store,
               answer_generator = demo_generator, current_document = Some ''b.pdf_22222222'',
               conversation_history = [b_entry]\<rparr>"

definition qa_fresh :: qa_system where
  "qa_fresh = \<lparr>pdf_processor = PDFProcessor_init, document_store = empty_store,
                answer_generator = demo_generator, current_document = None,
                conversation_history = []\<rparr>"

definition pdf_a :: pdf_file where
  "pdf_a = \<lparr>generated_id = ''a.pdf_11111111'', file_metadata = [(''title'', Str ''Graphs'')],
             extracted = Inr ''Lecture notes about graphs.''\<rparr>"

definition pdf_c :: pdf_file where
  "pdf_c = \<lparr>generated_id = ''c.pdf_33333333'', file_metadata = [(''title'', Str ''Graphs'')],
             extracted = Inr ''Lecture notes about graphs.''\<rparr>"

section \<open>The chunker\<close>

lemma rfind_absent: "c \<notin> set s \<Longrightarrow> rfind s c lo hi = - 1"
proof -
  assume absent: "c \<notin> set s"
  have "filter (\<lambda>i. s ! i = c) (rev [lo..<min hi (length s)]) = []"
    using absent by (auto simp: filter_empty_conv)
  then show ?thesis by (simp add: rfind_def)
qed

lemma chunk_end_no_terminator:
  assumes "CHR ''.'' \<notin> set t" "CHR ''!'' \<notin> set t" "CHR ''?'' \<notin> set t"
  shows "chunk_end p t start = min (start + chunk_size p) (length t)"
  using assms by (simp add: chunk_end_def Let_def rfind_absent)

lemma strip_replicate: "\<not> isspace c \<Longrightarrow> strip (replicate n c) = replicate n c"
  by (simp add: strip_def dropWhile_replicate)

lemma next_start_ge:
  "overlap p < chunk_size p \<Longrightarrow> start + (chunk_size p - overlap p) \<le> next_start p start e"
  by (simp add: next_start_def)

lemma next_start_ge_end: "e \<le> next_start p start e"
  by (simp add: next_start_def)

lemma chunk_loop_terminates:
  "overlap p < chunk_size p \<Longrightarrow> \<exists>r. chunk_loop p t start cid chunks = Some r"
proof (induction "length t - start" arbitrary: start cid chunks rule: less_induct)
  case less
  show ?case
  proof (cases "start < length t")
    case False
    then show ?thesis by (subst chunk_loop.simps) simp
  next
    case True
    let ?e = "chunk_end p t start"
    let ?s = "next_start p start ?e"
    have "start < ?s" using next_start_ge[OF less.prems, of start ?e] less.prems by linarith
    with True have "length t - ?s < length t - start" by linarith
    from less.hyps[OF this less.prems]
    have ih: "\<exists>r. chunk_loop p t ?s c cs = Some r" for c cs by blast
    show ?thesis
      by (subst chunk_loop.simps) (simp add: True Let_def ih)
  qed
qed

text \<open>A text no longer than the chunk size gives one chunk, or none when it is blank.\<close>

lemma chunk_text_short:
  assumes "length t \<le> chunk_size p"
  shows "chunk_text p t =
         Some (if strip t = [] then []
               else [\<lparr>c_id = 0, c_text = strip t, c_start_pos = 0, c_end_pos = length t,
                      c_length = length (strip t)\<rparr>])"
proof (cases "t = []")
  case True
  then show ?thesis
    unfolding chunk_text_def by (subst chunk_loop.simps) (simp add: strip_def)
next
  case False
  have e: "chunk_end p t 0 = length t" using assms by (simp add: chunk_end_def Let_def min_def)
  have n: "\<not> next_start p 0 (length t) < length t" by (simp add: next_start_def)
  have halt: "chunk_loop p t (next_start p 0 (length t)) c cs = Some cs" for c cs
    using n by (subst chunk_loop.simps) simp
  show ?thesis
    unfolding chunk_text_def
    using False by (subst chunk_loop.simps) (simp add: e halt slice_def Let_def)
qed

text \<open>Whatever the processor, the chunks returned are numbered by position.\<close>

lemma dense_ids_snoc:
  "dense_ids cs \<Longrightarrow> c_id c = int (length cs) \<Longrightarrow> dense_ids (cs @ [c])"
  by (simp add: dense_ids_def)

lemma chunk_loop_dense:
  assumes "chunk_loop p t start cid chunks = Some r"
  shows "dense_ids chunks \<longrightarrow> cid = int (length chunks) \<longrightarrow> dense_ids r"
proof (rule chunk_loop.raw_induct[where P = "\<lambda>p t start cid chunks r.
    dense_ids chunks \<longrightarrow> cid = int (length chunks) \<longrightarrow> dense_ids r", OF _ assms])
  fix loop :: "processor \<Rightarrow> string \<Rightarrow> nat \<Rightarrow> int \<Rightarrow> chunk list \<Rightarrow> chunk list option"
  fix p t start cid chunks r
  assume ih: "\<And>t start cid chunks b y. loop t start cid chunks b = Some y \<Longrightarrow>
      dense_ids b \<longrightarrow> chunks = int (length b) \<longrightarrow> dense_ids y"
  assume body: "(if start < length t
      then let e = chunk_end p t start; ct = strip (slice t start e)
           in if ct \<noteq> []
              then loop p t (next_start p start e) (cid + 1)
                    (chunks @
                     [\<lparr>c_id = cid, c_text = ct, c_start_pos = start,
                         c_end_pos = e, c_length = length ct\<rparr>])
              else loop p t (next_start p start e) cid chunks
      else Some chunks) = Some r"
  show "dense_ids chunks \<longrightarrow> cid = int (length chunks) \<longrightarrow> dense_ids r"
  proof (intro impI)
    assume d: "dense_ids chunks" and c: "cid = int (length chunks)"
    show "dense_ids r"
    proof (cases "start < length t")
      case False
      with body d show ?thesis by simp
    next
      case True
      let ?e = "chunk_end p t start"
      let ?ct = "strip (slice t start ?e)"
      show ?thesis
      proof (cases "?ct = []")
        case True
        with body \<open>start < length t\<close>
        have "loop p t (next_start p start ?e) cid chunks = Some r" by (simp add: Let_def)
        from ih[OF this] d c show ?thesis by simp
      next
        case False
        let ?new = "\<lparr>c_id = cid, c_text = ?ct, c_start_pos = start, c_end_pos = ?e,
                      c_length = length ?ct\<rparr>"
        from False body \<open>start < length t\<close>
        have "loop p t (next_start p start ?e) (cid + 1) (chunks @ [?new]) = Some r"
          by (simp add: Let_def)
        from ih[OF this] dense_ids_snoc[OF d, of ?new] c show ?thesis by simp
      qed
    qed
  qed
qed

lemma chunk_text_dense_ids: "chunk_text p t = Some cs \<Longrightarrow> dense_ids cs"
  using chunk_loop_dense[of p t 0 0 "[]" cs] by (simp add: chunk_text_def dense_ids_def)

text \<open>
  Claim C1 (the code departs from it). On a text of 1200 characters without a sentence
  terminator the claim expects the chunks to start at 0, 450 and 900 with lengths 500, 500
  and 300. The loop moves \<open>start\<close> to \<open>max (start + 450) end\<close>, and \<open>end\<close> is
  \<open>start + 500\<close> here, so the next chunk starts where the last one ended: on 1200
  letters \<open>a\<close> the chunks start at 0, 500 and 1000 and their lengths are 500, 500 and
  200. No two chunks overlap, against the overlap of 50 that the processor is set up with.
\<close>

theorem chunk_text_1200_no_overlap:
  "chunk_text PDFProcessor_init text_1200 =
   Some [\<lparr>c_id = 0, c_text = replicate 500 (CHR ''a''), c_start_pos = 0, c_end_pos = 500,
           c_length = 500\<rparr>,
         \<lparr>c_id = 1, c_text = replicate 500 (CHR ''a''), c_start_pos = 500, c_end_pos = 1000,
           c_length = 500\<rparr>,
         \<lparr>c_id = 2, c_text = replicate 200 (CHR ''a''), c_start_pos = 1000, c_end_pos = 1200,
           c_length = 200\<rparr>]"
proof -
  let ?p = PDFProcessor_init
  have ns: "\<not> isspace (CHR ''a'')" by (simp add: isspace_def)
  have e: "chunk_end ?p text_1200 start = min (start + 500) 1200" for start
    by (simp add: chunk_end_no_terminator PDFProcessor_init_def text_1200_def)
  have n: "next_start ?p start e = max (start + 450) e" for start e
    by (simp add: next_start_def PDFProcessor_init_def)
  have len: "length text_1200 = 1200" by (simp add: text_1200_def)
  have sl: "slice text_1200 lo hi = replicate (min (hi - lo) (1200 - lo)) (CHR ''a'')" for lo hi
    by (simp add: slice_def text_1200_def)
  show ?thesis
    unfolding chunk_text_def
    apply (subst chunk_loop.simps, simp add: e n len sl strip_replicate ns Let_def)
    apply (subst chunk_loop.simps, simp add: e n len sl strip_replicate ns Let_def)
    apply (subst chunk_loop.simps, simp add: e n len sl strip_replicate ns Let_def)
    apply (subst chunk_loop.simps, simp add: e n len sl strip_replicate ns Let_def)
    done
qed

text \<open>
  Claim C8. Whenever the chunk size exceeds the overlap, as with the defaults 500 and 50,
  \<open>chunk_text\<close> returns for every text, and every iteration moves \<open>start\<close> forward
  by at least \<open>chunk_size - overlap\<close>, so strictly.
\<close>

theorem chunk_text_terminates:
  assumes "overlap p < chunk_size p"
  shows "(\<exists>chunks. chunk_text p t = Some chunks) \<and>
         start + (chunk_size p - overlap p) \<le> next_start p start (chunk_end p t start) \<and>
         start < next_start p start (chunk_end p t start)"
proof -
  have step: "start + (chunk_size p - overlap p) \<le> next_start p start (chunk_end p t start)"
    by (rule next_start_ge[OF assms])
  with assms have "start < next_start p start (chunk_end p t start)" by linarith
  with step show ?thesis
    using chunk_loop_terminates[OF assms, of t 0 0 "[]"] by (simp add: chunk_text_def)
qed

theorem chunk_text_terminates_witness:
  "overlap PDFProcessor_init < chunk_size PDFProcessor_init \<and>
   (\<exists>chunks. chunk_text PDFProcessor_init text_1200 = Some chunks) \<and>
   500 + (chunk_size PDFProcessor_init - overlap PDFProcessor_init)
     \<le> next_start PDFProcessor_init 500 (chunk_end PDFProcessor_init text_1200 500) \<and>
   500 < next_start PDFProcessor_init 500 (chunk_end PDFProcessor_init text_1200 500)"
  using chunk_text_terminates[of PDFProcessor_init text_1200 500]
  by (simp add: PDFProcessor_init_def)

section \<open>Preprocessing\<close>

lemma collapse_ws_space: "x \<in> set (collapse_ws t) \<Longrightarrow> isspace x \<Longrightarrow> x = CHR '' ''"
  by (induction t rule: collapse_ws.induct) (auto split: if_splits)

lemma isspace_newline: "isspace (CHR 0x0A)"
  by (simp add: isspace_def)

lemma no_newline: "CHR 0x0A \<notin> set (remove_special (collapse_ws t))"
proof
  assume "CHR 0x0A \<in> set (remove_special (collapse_ws t))"
  then have "CHR 0x0A \<in> set (collapse_ws t)" by (simp add: remove_special_def)
  from collapse_ws_space[OF this isspace_newline] show False by simp
qed

lemma split_on_absent: "d \<notin> set s \<Longrightarrow> split_on d s = [s]"
  by (induction s) auto

lemma dropWhile_strip: "dropWhile isspace (strip s) = strip s"
proof -
  let ?y = "dropWhile isspace s"
  let ?z = "dropWhile isspace (rev ?y)"
  show ?thesis
  proof (cases "?z = []")
    case True
    then show ?thesis by (simp only: strip_def rev.simps dropWhile.simps)
  next
    case False
    have "rev ?y = takeWhile isspace (rev ?y) @ ?z" by simp
    then have "?y = rev ?z @ rev (takeWhile isspace (rev ?y))"
      by (metis rev_append rev_rev_ident)
    then have "hd ?y = hd (rev ?z)" using False
      by (metis hd_append2 rev_is_Nil_conv)
    moreover have "?y \<noteq> []"
    proof
      assume "?y = []"
      then have "?z = []" by (simp only: rev.simps dropWhile.simps)
      with False show False by simp
    qed
    then have "\<not> isspace (hd ?y)" by (rule hd_dropWhile)
    ultimately have "\<not> isspace (hd (rev ?z))" by simp
    then have "dropWhile isspace (rev ?z) = rev ?z" using False
      by (metis dropWhile.simps(2) list.collapse rev_is_Nil_conv)
    then show ?thesis by (simp add: strip_def)
  qed
qed

lemma strip_strip: "strip (strip s) = strip s"
proof -
  have "strip (strip s) = rev (dropWhile isspace (rev (strip s)))"
    unfolding strip_def[of "strip s"] by (simp add: dropWhile_strip)
  also have "rev (strip s) = dropWhile isspace (rev (dropWhile isspace s))"
    by (simp add: strip_def)
  also have "dropWhile isspace (dropWhile isspace (rev (dropWhile isspace s))) =
             dropWhile isspace (rev (dropWhile isspace s))"
    by (rule dropWhile_idem)
  finally show ?thesis by (simp add: strip_def)
qed

text \<open>
  Claim C9, as stated, at the input \<open>'' Page 12345''\<close>: the collapsed and cleaned text is
  the input itself, 11 characters long, so the claim expects it back whole. The filter
  strips the line first; the 10 characters left are not more than 10, and the result is
  empty.
\<close>

theorem preprocess_text_strip_counterexample:
  "remove_special (collapse_ws '' Page 12345'') = '' Page 12345'' \<and>
   length (remove_special (collapse_ws '' Page 12345'')) = 11 \<and>
   preprocess_text '' Page 12345'' = []"
  by (simp add: preprocess_text_def remove_special_def kept_def is_word_def isspace_def strip_def)

text \<open>
  Claim C9, amended. The collapsed and cleaned text holds no newline, so the short-line
  filter sees one line. For every input the result is empty when that text, stripped of
  the whitespace at its two ends, has at most 10 characters; otherwise the result is the
  whole stripped text, and no line inside it is removed.
\<close>

theorem preprocess_text_single_line:
  "preprocess_text t =
     (let c = strip (remove_special (collapse_ws t))
      in if length c \<le> 10 then [] else c) \<and>
   CHR 0x0A \<notin> set (remove_special (collapse_ws t)) \<and>
   split_on (CHR 0x0A) (remove_special (collapse_ws t)) = [remove_special (collapse_ws t)]"
  by (simp add: preprocess_text_def Let_def split_on_absent[OF no_newline] strip_strip no_newline)
     (simp add: strip_def)

section \<open>Search\<close>

subsection \<open>Rounding a threshold to single precision\<close>

lemma floor_log2_eq:
  assumes "2 powr of_int e \<le> x" "x < 2 powr of_int (e + 1)"
  shows "\<lfloor>log 2 x\<rfloor> = e"
proof -
  have pos: "0 < x" using assms(1) by (smt (verit) powr_gt_zero)
  have "of_int e \<le> log 2 x" using assms(1) pos by (simp add: le_log_iff)
  moreover have "log 2 x < of_int (e + 1)" using assms(2) pos by (simp add: log_less_iff)
  ultimately show ?thesis by (intro floor_unique) simp_all
qed

lemma float32_ulp_eq:
  assumes "2 powr of_int e \<le> \<bar>x\<bar>" "\<bar>x\<bar> < 2 powr of_int (e + 1)" "- 126 \<le> e"
  shows "float32_ulp x = 2 powr (of_int e - 23)"
  using floor_log2_eq[OF assms(1,2)] assms(3) by (simp add: float32_ulp_def)

lemma float32_ulp_default: "float32_ulp (3 / 10) = 1 / 2 ^ 25"
  using float32_ulp_eq[of "- 2" "3 / 10"] by (simp add: powr_minus_divide)

lemma float32_round_default: "float32_round (3 / 10) = 5033165 / 16777216"
  by (simp add: float32_round_def float32_ulp_default round_half_even_def)

lemma float32_ulp_above_half: "float32_ulp (5000000001 / 10000000000) = 1 / 2 ^ 24"
  using float32_ulp_eq[of "- 1" "5000000001 / 10000000000"] by (simp add: powr_minus_divide)

lemma float32_round_above_half: "float32_round (5000000001 / 10000000000) = 1 / 2"
  by (simp add: float32_round_def float32_ulp_above_half round_half_even_def)

lemma np_float32_ge_default: "np_float32_ge score (3 / 10) \<longleftrightarrow> 5033165 / 16777216 \<le> score"
  by (simp add: np_float32_ge_def float32_round_default float32_max_def)

lemma np_float32_ge_above_half: "np_float32_ge (1 / 2) (5000000001 / 10000000000)"
  by (simp add: np_float32_ge_def float32_round_above_half float32_max_def)


subsection \<open>The loop as a filter\<close>

lemma py_index_resolves:
  "py_index cs idx = (if resolves cs idx then Inr (chunk_at cs idx) else Inl IndexError)"
  by (auto simp: py_index_def resolves_def chunk_at_def Let_def)

lemma search_loop_eq:
  "search_loop cs thr i raw =
     (let kept = filter (\<lambda>(j, score, idx). idx \<noteq> - 1 \<and> np_float32_ge score thr) (enumerate i raw)
      in if list_all (\<lambda>(j, score, idx). resolves cs idx) kept
         then Inr (map (\<lambda>(j, score, idx). with_score (chunk_at cs idx) score (j + 1)) kept)
         else Inl IndexError)"
proof (induction raw arbitrary: i)
  case Nil
  show ?case by simp
next
  case (Cons x raw)
  obtain score idx where x: "x = (score, idx)" by (cases x)
  show ?case
    unfolding x using Cons.IH[of "Suc i"]
    by (simp add: Let_def py_index_resolves with_score_def)
qed

lemma search_eq:
  "search e query k thr =
     (if ntotal e = 0 then []
      else case index_search e query k of
             Inl err \<Rightarrow> []
           | Inr raw \<Rightarrow>
               if list_all (\<lambda>(i, score, idx). resolves (eng_chunks e) idx) (kept_entries thr raw)
               then map (\<lambda>(i, score, idx). with_score (chunk_at (eng_chunks e) idx) score (i + 1))
                      (kept_entries thr raw)
               else [])"
  by (simp add: search_def search_loop_eq kept_entries_def Let_def split: sum.splits)

lemma search_cases:
  "search e query k thr = [] \<or>
   (\<exists>raw. index_search e query k = Inr raw \<and>
      search e query k thr =
        map (\<lambda>(i, score, idx). with_score (chunk_at (eng_chunks e) idx) score (i + 1))
          (kept_entries thr raw))"
  by (auto simp: search_eq split: sum.splits)

lemma kept_entries_scores:
  "map (\<lambda>(i, score, idx). score) (kept_entries thr raw) =
   filter (\<lambda>score. np_float32_ge score thr) (map fst (filter (\<lambda>x. snd x \<noteq> - 1) raw))"
proof -
  have gen: "map (\<lambda>(i, score, idx). score)
        (filter (\<lambda>(i, score, idx). idx \<noteq> - 1 \<and> np_float32_ge score thr) (enumerate n raw)) =
      map fst (filter (\<lambda>x. snd x \<noteq> - 1 \<and> np_float32_ge (fst x) thr) raw)" for n
    by (induction raw arbitrary: n) (auto simp: case_prod_unfold)
  have "map fst (filter (\<lambda>x. snd x \<noteq> - 1 \<and> np_float32_ge (fst x) thr) raw) =
      filter (\<lambda>score. np_float32_ge score thr) (map fst (filter (\<lambda>x. snd x \<noteq> - 1) raw))"
    by (induction raw) auto
  with gen[of 0] show ?thesis unfolding kept_entries_def by simp
qed

lemma subseq_filter_map_filter:
  "subseq (filter P (map f (filter Q xs))) (map f xs)"
proof -
  have "subseq (map f (filter Q xs)) (map f xs)" by (simp add: subseq_map)
  moreover have "subseq (filter P (map f (filter Q xs))) (map f (filter Q xs))" by simp
  ultimately show ?thesis by (rule subseq_order.order_trans[rotated])
qed



subsection \<open>Evaluations\<close>

lemma search_ranked:
  "search ranked_engine ''tree'' 5 (3 / 10) =
     [with_score (five_chunks ! 2) (7 / 8) 1, with_score (five_chunks ! 0) (7 / 8) 2,
      with_score (five_chunks ! 4) (1 / 2) 3]"
  by (simp add: search_def ranked_engine_def ranked_answer_def five_chunks_def py_index_def
      np_float32_ge_default with_score_def)


lemma search_tie:
  "map (\<lambda>r. (similarity_score r, c_id r)) (search tie_engine ''tree'' 2 (3 / 10)) =
     [(9 / 10, 1), (9 / 10, 0)]"
  by (simp add: search_def tie_engine_def two_chunks_def py_index_def np_float32_ge_default)

lemma search_half:
  "map similarity_score (search half_engine ''tree'' 1 (5000000001 / 10000000000)) = [1 / 2]"
  apply (simp only: search_def half_engine_def)
  apply (simp add: notes_chunks_def py_index_def)
  using np_float32_ge_above_half apply simp
  done


subsection \<open>Claims C2 and C3\<close>

text \<open>
  Claim C2, as stated, at two inputs. An index over two chunks with the same text gives
  both the score 0.9 and lists position 1 before position 0: \<open>search\<close> keeps that
  order, so the tie is not broken by ascending chunk id. And under the threshold
  0.5000000001, which single precision rounds to 0.5, the result of score 0.5 is returned,
  with a score below the threshold.
\<close>

theorem search_tie_counterexample:
  "map (\<lambda>r. (similarity_score r, c_id r)) (search tie_engine ''tree'' 2 (3 / 10)) =
     [(9 / 10, 1), (9 / 10, 0)] \<and>
   map similarity_score (search half_engine ''tree'' 1 (5000000001 / 10000000000)) = [1 / 2] \<and>
   (1 / 2 :: real) < 5000000001 / 10000000000"
  by (intro conjI search_tie search_half) simp

text \<open>
  Claim C2, amended. For every query, every \<open>k\<close> and every threshold, \<open>search\<close>
  returns the entries of the index's answer that are labelled other than \<open>-1\<close> and
  whose score is at least the threshold as single precision rounds it, each with the chunk
  at its label, in the order of the answer; it returns nothing when the index is empty,
  when the index raises or when a label resolves to no chunk. So every score returned is
  at least the rounded threshold, which can lie below the threshold itself; the scores are
  a subsequence of those of the answer, in descending order whenever the answer is.
  \<open>search\<close> does not sort and breaks no tie: results of equal score stay in the order
  of the index.
\<close>

theorem search_threshold_and_order:
  "search e query k thr =
     (if ntotal e = 0 then []
      else case index_search e query k of
             Inl err \<Rightarrow> []
           | Inr raw \<Rightarrow>
               if list_all (\<lambda>(i, score, idx). resolves (eng_chunks e) idx) (kept_entries thr raw)
               then map (\<lambda>(i, score, idx). with_score (chunk_at (eng_chunks e) idx) score (i + 1))
                      (kept_entries thr raw)
               else []) \<and>
   (\<forall>r\<in>set (search e query k thr). np_float32_ge (similarity_score r) thr) \<and>
   (\<forall>raw. index_search e query k = Inr raw \<longrightarrow>
      subseq (map similarity_score (search e query k thr)) (map fst raw) \<and>
      (sorted_wrt (\<lambda>a b. b \<le> a) (map fst raw) \<longrightarrow>
       sorted_wrt (\<lambda>a b. b \<le> a) (map similarity_score (search e query k thr))))"
proof -
  let ?res = "search e query k thr"
  let ?mk = "\<lambda>(i, score, idx). with_score (chunk_at (eng_chunks e) idx) score (i + 1)"
  have eq: "?res =
     (if ntotal e = 0 then []
      else case index_search e query k of
             Inl err \<Rightarrow> []
           | Inr raw \<Rightarrow>
               if list_all (\<lambda>(i, score, idx). resolves (eng_chunks e) idx) (kept_entries thr raw)
               then map ?mk (kept_entries thr raw)
               else [])"
    by (rule search_eq)
  consider (empty) "?res = []"
    | (kept) raw where "index_search e query k = Inr raw" "?res = map ?mk (kept_entries thr raw)"
    using search_cases[of e query k thr] by blast
  then have rest: "(\<forall>r\<in>set ?res. np_float32_ge (similarity_score r) thr) \<and>
   (\<forall>raw. index_search e query k = Inr raw \<longrightarrow>
      subseq (map similarity_score ?res) (map fst raw) \<and>
      (sorted_wrt (\<lambda>a b. b \<le> a) (map fst raw) \<longrightarrow>
       sorted_wrt (\<lambda>a b. b \<le> a) (map similarity_score ?res)))"
  proof cases
    case empty
    then show ?thesis by simp
  next
    case kept
    have sc: "map similarity_score ?res = map (\<lambda>(i, score, idx). score) (kept_entries thr raw)"
      unfolding kept(2) by (simp add: case_prod_unfold with_score_def)
    have filt: "map similarity_score ?res =
        filter (\<lambda>score. np_float32_ge score thr) (map fst (filter (\<lambda>x. snd x \<noteq> - 1) raw))"
      unfolding sc by (rule kept_entries_scores)
    have sub: "subseq (map similarity_score ?res) (map fst raw)"
      unfolding filt by (rule subseq_filter_map_filter)
    have "\<forall>s\<in>set (map similarity_score ?res). np_float32_ge s thr"
      unfolding filt by simp
    then have above: "\<forall>r\<in>set ?res. np_float32_ge (similarity_score r) thr" by simp
    have ordered: "sorted_wrt (\<lambda>a b. b \<le> a) (map similarity_score ?res)"
      if "sorted_wrt (\<lambda>a b. b \<le> a) (map fst raw)"
    proof -
      from that have "sorted_wrt (\<lambda>a b. b \<le> a) (map fst (filter (\<lambda>x. snd x \<noteq> - 1) raw))"
        by (simp add: sorted_wrt_map sorted_wrt_filter)
      then show ?thesis unfolding filt by (rule sorted_wrt_filter)
    qed
    show ?thesis using above sub ordered kept(1) by simp
  qed
  show ?thesis using eq rest by blast
qed

theorem search_threshold_and_order_witness:
  "index_search ranked_engine ''tree'' 5 = Inr ranked_answer \<and>
   sorted_wrt (\<lambda>a b. b \<le> a) (map fst ranked_answer) \<and>
   map (\<lambda>r. (similarity_score r, c_id r)) (search ranked_engine ''tree'' 5 (3 / 10)) =
     [(7 / 8, 2), (7 / 8, 0), (1 / 2, 4)] \<and>
   np_float32_ge (7 / 8) (3 / 10) \<and> np_float32_ge (1 / 2) (3 / 10) \<and>
   subseq (map similarity_score (search ranked_engine ''tree'' 5 (3 / 10))) (map fst ranked_answer) \<and>
   sorted_wrt (\<lambda>a b. b \<le> a) (map similarity_score (search ranked_engine ''tree'' 5 (3 / 10)))"
proof -
  have ans: "index_search ranked_engine ''tree'' 5 = Inr ranked_answer"
    by (simp add: ranked_engine_def)
  have srt: "sorted_wrt (\<lambda>a b. b \<le> a) (map fst ranked_answer)"
    by (simp add: ranked_answer_def)
  have ids: "map (\<lambda>r. (similarity_score r, c_id r)) (search ranked_engine ''tree'' 5 (3 / 10)) =
     [(7 / 8, 2), (7 / 8, 0), (1 / 2, 4)]"
    by (simp add: search_ranked with_score_def five_chunks_def)
  have mem: "with_score (five_chunks ! 2) (7 / 8) 1 \<in> set (search ranked_engine ''tree'' 5 (3 / 10))"
    "with_score (five_chunks ! 4) (1 / 2) 3 \<in> set (search ranked_engine ''tree'' 5 (3 / 10))"
    by (simp_all add: search_ranked)
  have sc: "similarity_score (with_score c s r) = s" for c s r
    by (simp add: with_score_def)
  from search_threshold_and_order[of ranked_engine "''tree''" 5 "3 / 10"]
  have above: "\<forall>r\<in>set (search ranked_engine ''tree'' 5 (3 / 10)). np_float32_ge (similarity_score r) (3 / 10)"
    and ord: "subseq (map similarity_score (search ranked_engine ''tree'' 5 (3 / 10))) (map fst ranked_answer)"
      "sorted_wrt (\<lambda>a b. b \<le> a) (map similarity_score (search ranked_engine ''tree'' 5 (3 / 10)))"
    using ans srt by blast+
  from above mem have "np_float32_ge (7 / 8) (3 / 10)" "np_float32_ge (1 / 2) (3 / 10)"
    using sc by force+
  with ans srt ids ord show ?thesis by simp
qed




section \<open>Context window\<close>

lemma dense_ids_nth: "dense_ids cs \<Longrightarrow> i < length cs \<Longrightarrow> c_id (cs ! i) = int i"
proof -
  assume d: "dense_ids cs" and i: "i < length cs"
  have "c_id (cs ! i) = map c_id cs ! i" using i by simp
  also have "\<dots> = map int [0..<length cs] ! i" using d by (simp add: dense_ids_def)
  also have "\<dots> = int i" using i by simp
  finally show ?thesis .
qed

lemma fold_union:
  "fold (\<lambda>x A. insert x A \<union> f x) xs B = B \<union> (\<Union>x\<in>set xs. insert x (f x))"
  by (induction xs arbitrary: B) auto

lemma expanded_ids_eq:
  "expanded_ids n chunk_ids w =
   (\<Union>c\<in>set chunk_ids. insert c {max 0 (c - w) ..< min (int n) (c + w + 1)})"
  by (simp only: expanded_ids_def fold_union) simp

lemma expanded_ids_window:
  assumes "0 \<le> w" "\<forall>c\<in>set chunk_ids. 0 \<le> c \<and> c < int n"
  shows "expanded_ids n chunk_ids w =
         {i. 0 \<le> i \<and> i < int n \<and> (\<exists>c\<in>set chunk_ids. \<bar>i - c\<bar> \<le> w)}"
  unfolding expanded_ids_eq using assms by (auto simp: abs_le_iff) force+

lemma finite_expanded_ids: "finite (expanded_ids n chunk_ids w)"
  unfolding expanded_ids_eq by simp

lemma expand_chunks_ok:
  "\<forall>i\<in>set ids. 0 \<le> i \<and> i < int (length cs) \<Longrightarrow>
   expand_chunks cs hit ids =
     Inr (map (\<lambda>i. \<lparr>c_id = c_id (cs ! nat i), c_text = c_text (cs ! nat i),
                     c_start_pos = c_start_pos (cs ! nat i), c_end_pos = c_end_pos (cs ! nat i),
                     c_length = c_length (cs ! nat i), is_context = (i \<notin> set hit)\<rparr>) ids)"
  by (induction ids) (auto simp: py_index_def)

text \<open>
  Claim C6. The hits are chunks of the engine: their ids are positions of its chunk list,
  which numbers its chunks by position. For such hits, not empty, and every window size
  \<open>w \<ge> 0\<close>, \<open>get_context_window\<close> returns chunks whose ids are strictly ascending
  and distinct, include every hit id, are exactly the valid ids at distance at most \<open>w\<close>
  from a hit id, and a returned chunk is marked as context if and only if its id is not a
  hit id.
\<close>

theorem get_context_window_ids:
  assumes ne: "hits \<noteq> []" and w: "0 \<le> w" and d: "dense_ids (eng_chunks e)"
    and valid: "\<forall>h\<in>set hits. 0 \<le> c_id h \<and> c_id h < int (length (eng_chunks e))"
  shows "\<exists>out. get_context_window e hits w = Inr out \<and>
           sorted_wrt (<) (map c_id out) \<and> distinct (map c_id out) \<and>
           c_id ` set hits \<subseteq> set (map c_id out) \<and>
           set (map c_id out) =
             {i. 0 \<le> i \<and> i < int (length (eng_chunks e)) \<and> (\<exists>h\<in>set hits. \<bar>i - c_id h\<bar> \<le> w)} \<and>
           (\<forall>c\<in>set out. is_context c \<longleftrightarrow> c_id c \<notin> c_id ` set hits)"
proof -
  let ?cs = "eng_chunks e"
  let ?n = "length ?cs"
  let ?hit = "map c_id hits"
  define E where "E = expanded_ids ?n ?hit w"
  define ids where "ids = sorted_list_of_set E"
  let ?mk = "\<lambda>i. \<lparr>c_id = c_id (?cs ! nat i), c_text = c_text (?cs ! nat i),
                     c_start_pos = c_start_pos (?cs ! nat i), c_end_pos = c_end_pos (?cs ! nat i),
                     c_length = c_length (?cs ! nat i), is_context = (i \<notin> set ?hit)\<rparr>"
  have valid': "\<forall>c\<in>set ?hit. 0 \<le> c \<and> c < int ?n" using valid by simp
  have E: "E = {i. 0 \<le> i \<and> i < int ?n \<and> (\<exists>c\<in>set ?hit. \<bar>i - c\<bar> \<le> w)}"
    unfolding E_def by (rule expanded_ids_window[OF w valid'])
  have "finite E" unfolding E_def by (rule finite_expanded_ids)
  then have set_ids: "set ids = E" by (simp add: ids_def)
  have in_range: "\<forall>i\<in>set ids. 0 \<le> i \<and> i < int ?n" unfolding set_ids E by simp
  have out: "get_context_window e hits w = Inr (map ?mk ids)"
    using ne expand_chunks_ok[OF in_range, of ?hit]
    by (simp add: get_context_window_def Let_def ids_def E_def)
  have id_mk: "c_id (?mk i) = i" if "i \<in> set ids" for i
  proof -
    from that in_range have i: "0 \<le> i" "nat i < ?n" by auto
    then show ?thesis using dense_ids_nth[OF d i(2)] by simp
  qed
  have ids: "map c_id (map ?mk ids) = ids"
    using id_mk by (simp add: map_idI)
  have asc: "sorted_wrt (<) (map c_id (map ?mk ids))"
    unfolding ids by (simp add: ids_def)
  have dist: "distinct (map c_id (map ?mk ids))"
    unfolding ids by (simp add: ids_def)
  have exact: "set (map c_id (map ?mk ids)) =
      {i. 0 \<le> i \<and> i < int ?n \<and> (\<exists>h\<in>set hits. \<bar>i - c_id h\<bar> \<le> w)}"
    unfolding ids set_ids E by auto
  have super: "c_id ` set hits \<subseteq> set (map c_id (map ?mk ids))"
  proof
    fix i assume "i \<in> c_id ` set hits"
    then obtain h where h: "h \<in> set hits" "i = c_id h" by auto
    have "\<bar>i - c_id h\<bar> \<le> w" using h(2) w by simp
    then show "i \<in> set (map c_id (map ?mk ids))"
      unfolding exact using valid h by blast
  qed
  have ctx: "\<forall>c\<in>set (map ?mk ids). is_context c \<longleftrightarrow> c_id c \<notin> c_id ` set hits"
  proof
    fix c assume "c \<in> set (map ?mk ids)"
    then obtain i where i: "i \<in> set ids" "c = ?mk i" by auto
    have "c_id c = i" using id_mk[OF i(1)] i(2) by simp
    moreover have "is_context c \<longleftrightarrow> i \<notin> set ?hit" using i(2) by simp
    ultimately show "is_context c \<longleftrightarrow> c_id c \<notin> c_id ` set hits" by simp
  qed
  show ?thesis using out asc dist super exact ctx by blast
qed

theorem get_context_window_ids_witness:
  "[hit_three] \<noteq> [] \<and> (0::int) \<le> 1 \<and> dense_ids (eng_chunks five_engine) \<and>
   0 \<le> c_id hit_three \<and> c_id hit_three < int (length (eng_chunks five_engine)) \<and>
   (\<exists>out. get_context_window five_engine [hit_three] 1 = Inr out \<and>
      sorted_wrt (<) (map c_id out) \<and> distinct (map c_id out) \<and>
      c_id ` set [hit_three] \<subseteq> set (map c_id out) \<and>
      set (map c_id out) = {2, 3, 4} \<and>
      (\<forall>c\<in>set out. is_context c \<longleftrightarrow> c_id c \<notin> c_id ` set [hit_three]))"
proof -
  have d: "dense_ids (eng_chunks five_engine)"
    by (simp add: dense_ids_def five_engine_def five_chunks_def upt_rec)
  have v: "\<forall>h\<in>set [hit_three]. 0 \<le> c_id h \<and> c_id h < int (length (eng_chunks five_engine))"
    by (simp add: hit_three_def five_engine_def five_chunks_def)
  have s: "{i. 0 \<le> i \<and> i < int (length (eng_chunks five_engine)) \<and>
              (\<exists>h\<in>set [hit_three]. \<bar>i - c_id h\<bar> \<le> 1)} = {2, 3, 4}"
    by (auto simp: hit_three_def five_engine_def five_chunks_def)
  show ?thesis
    using get_context_window_ids[of "[hit_three]" 1 five_engine, OF _ _ d v] d v
    unfolding s by simp
qed

section \<open>Answer generation\<close>

text \<open>
  Claim C7, as stated, at a hit whose text has 101 characters: the preview is the first
  100 characters followed by three dots, 103 characters.
\<close>

theorem preview_counterexample:
  "map (\<lambda>s. length (text_preview s))
     (ans_sources (generate_answer demo_generator ''What is a tree?'' [long_hit] ''Graphs''
        ''2024-01-01T00:00:00''))
   = [103]"
  by (simp add: generate_answer_def make_source_def long_hit_def Let_def)

text \<open>
  Claim C7, amended. Every answer bundle cites at most the first 3 context chunks, and
  every preview is at most 103 characters long: the text itself when it has at most 100
  characters, its first 100 characters followed by three dots otherwise.
\<close>

theorem sources_bounded:
  "length (ans_sources (generate_answer g question context_chunks document_title timestamp)) \<le> 3 \<and>
   ans_sources (generate_answer g question context_chunks document_title timestamp) =
     map make_source (take 3 context_chunks) \<and>
   (\<forall>s\<in>set (ans_sources (generate_answer g question context_chunks document_title timestamp)).
      length (text_preview s) \<le> 103)"
  by (auto simp: generate_answer_def make_source_def Let_def)

theorem sources_bounded_witness:
  "length (ans_sources (generate_answer demo_generator ''What is a tree?''
      [long_hit, long_hit, long_hit, long_hit] ''Graphs'' ''2024-01-01T00:00:00'')) = 3 \<and>
   make_source long_hit \<in> set (ans_sources (generate_answer demo_generator ''What is a tree?''
      [long_hit, long_hit, long_hit, long_hit] ''Graphs'' ''2024-01-01T00:00:00'')) \<and>
   length (text_preview (make_source long_hit)) \<le> 103"
  using sources_bounded[of demo_generator "''What is a tree?''"
      "[long_hit, long_hit, long_hit, long_hit]" "''Graphs''" "''2024-01-01T00:00:00''"]
  by simp

section \<open>Document store\<close>

lemma add_document_build_failure:
  "\<not> model_loads be \<or> \<not> build_ok be chunks \<Longrightarrow>
   add_document be s doc_id chunks md = (Inl ModelLoadError, s) \<or>
   add_document be s doc_id chunks md = (Inl EncodeError, s)"
  by (auto simp: add_document_def)

lemma add_document_save_failure_general:
  "model_loads be \<Longrightarrow> build_ok be chunks \<Longrightarrow> \<not> save_ok be (storage_path s) doc_id \<Longrightarrow>
   fst (add_document be s doc_id chunks md) = Inl SaveError \<and>
   doc_id \<in> set (map dl_id (get_document_list (snd (add_document be s doc_id chunks md))))"
proof -
  assume a: "model_loads be" "build_ok be chunks" "\<not> save_ok be (storage_path s) doc_id"
  have "fst ` set (AList.update doc_id v (documents s)) = {doc_id} \<union> fst ` set (documents s)"
    for v :: doc_info
    by (rule AList.dom_update)
  then have "doc_id \<in> set (map fst (AList.update doc_id v (documents s)))" for v :: doc_info
    by simp
  moreover have "map dl_id (get_document_list st) = map fst (documents st)" for st
    by (simp add: get_document_list_def case_prod_unfold)
  ultimately show ?thesis using a
    by (simp add: add_document_def Let_def)
qed

text \<open>
  Claim C5 (the code departs from it). \<open>add_document\<close> registers the document before
  it writes the index. With a backend that builds the index and fails to write it, the
  call raises and the listing of the store that was empty shows the document.
\<close>

theorem add_document_save_failure:
  "fst (add_document disk_full_backend empty_store ''notes.pdf_0a1b2c3d'' notes_chunks None)
     = Inl SaveError \<and>
   map dl_id (get_document_list
      (snd (add_document disk_full_backend empty_store ''notes.pdf_0a1b2c3d'' notes_chunks None)))
     = [''notes.pdf_0a1b2c3d'']"
  by (simp add: add_document_def disk_full_backend_def empty_store_def get_document_list_def Let_def)

section \<open>Sessions\<close>

text \<open>
  Claim C4. Without a document id and without a current document \<open>ask_question\<close>
  fails with the message that no document is selected; when the search of the resolved
  document returns no chunk it fails with the message that nothing relevant was found. In
  both cases the session, and so the conversation history, is unchanged.
\<close>

theorem ask_question_failures:
  "(current_document qa = None \<longrightarrow>
      \<not> ask_success (fst (ask_question qa question None k ts)) \<and>
      ask_message (fst (ask_question qa question None k ts)) =
        Some ''No document selected. Please upload a document first.'' \<and>
      snd (ask_question qa question None k ts) = qa) \<and>
   ((case dopt of None \<Rightarrow> current_document qa_n | Some d \<Rightarrow> Some d) = Some doc_id \<and>
    search_document (document_store qa_n) doc_id question_n k_n = [] \<longrightarrow>
      \<not> ask_success (fst (ask_question qa_n question_n dopt k_n ts_n)) \<and>
      ask_message (fst (ask_question qa_n question_n dopt k_n ts_n)) =
        Some ''No relevant information found in the document.'' \<and>
      snd (ask_question qa_n question_n dopt k_n ts_n) = qa_n)"
  by (auto simp: ask_question_def Let_def split: option.splits)

lemma search_below_threshold:
  "search_document two_doc_store ''b.pdf_22222222'' ''What is a tree?'' 5 = []"
  by (simp add: search_document_def two_doc_store_def search_def notes_engine_def
      default_score_threshold_def np_float32_ge_default)

theorem ask_question_failures_witness:
  "current_document qa_fresh = None \<and>
   \<not> ask_success (fst (ask_question qa_fresh ''What is a tree?'' None 5 ''2024-01-01T00:00:00'')) \<and>
   ask_message (fst (ask_question qa_fresh ''What is a tree?'' None 5 ''2024-01-01T00:00:00'')) =
     Some ''No document selected. Please upload a document first.'' \<and>
   conversation_history (snd (ask_question qa_fresh ''What is a tree?'' None 5 ''2024-01-01T00:00:00''))
     = conversation_history qa_fresh \<and>
   current_document qa_on_b = Some ''b.pdf_22222222'' \<and>
   search_document (document_store qa_on_b) ''b.pdf_22222222'' ''What is a tree?'' 5 = [] \<and>
   \<not> ask_success (fst (ask_question qa_on_b ''What is a tree?'' None 5 ''2024-01-01T00:00:00'')) \<and>
   ask_message (fst (ask_question qa_on_b ''What is a tree?'' None 5 ''2024-01-01T00:00:00'')) =
     Some ''No relevant information found in the document.'' \<and>
   conversation_history (snd (ask_question qa_on_b ''What is a tree?'' None 5 ''2024-01-01T00:00:00''))
     = [b_entry]"
proof -
  have c1: "current_document qa_fresh = None" by (simp add: qa_fresh_def)
  have c2: "current_document qa_on_b = Some ''b.pdf_22222222''" by (simp add: qa_on_b_def)
  have s2: "search_document (document_store qa_on_b) ''b.pdf_22222222'' ''What is a tree?'' 5 = []"
    by (simp add: qa_on_b_def search_below_threshold)
  have h: "conversation_history qa_on_b = [b_entry]" by (simp add: qa_on_b_def)
  show ?thesis
    using ask_question_failures[where qa = qa_fresh and question = "''What is a tree?''"
        and k = 5 and ts = "''2024-01-01T00:00:00''" and dopt = None and qa_n = qa_on_b
        and doc_id = "''b.pdf_22222222''" and question_n = "''What is a tree?''"
        and k_n = 5 and ts_n = "''2024-01-01T00:00:00''"]
      c1 c2 s2 h
    by simp
qed

text \<open>
  Claim C10. When the id derived from the uploaded file is already listed,
  \<open>upload_document\<close> succeeds with \<open>is_new = False\<close>, makes that id the current
  document and leaves the conversation history as it was. An upload that registers a new
  document, and a successful \<open>select_document\<close>, both leave the history empty.
\<close>

theorem upload_existing_keeps_history:
  "(list_ex (\<lambda>doc. dl_id doc = generated_id pdf) (get_document_list (document_store qa)) \<longrightarrow>
      (\<exists>r qa'. upload_document be qa pdf title = Some (r, qa') \<and>
         up_success r \<and> up_is_new r = Some False \<and>
         current_document qa' = Some (generated_id pdf) \<and>
         conversation_history qa' = conversation_history qa)) \<and>
   (upload_document be_n qa_n pdf_n title_n = Some (r_n, qa_n') \<and> up_is_new r_n = Some True \<longrightarrow>
      current_document qa_n' = Some (generated_id pdf_n) \<and> conversation_history qa_n' = []) \<and>
   (select_document qa_s d_s = (r_s, qa_s') \<and> sel_success r_s \<longrightarrow>
      current_document qa_s' = Some d_s \<and> conversation_history qa_s' = [])"
proof (intro conjI impI)
  assume "list_ex (\<lambda>doc. dl_id doc = generated_id pdf) (get_document_list (document_store qa))"
  then show "\<exists>r qa'. upload_document be qa pdf title = Some (r, qa') \<and>
         up_success r \<and> up_is_new r = Some False \<and>
         current_document qa' = Some (generated_id pdf) \<and>
         conversation_history qa' = conversation_history qa"
    by (simp add: upload_document_def Let_def)
next
  assume a: "upload_document be_n qa_n pdf_n title_n = Some (r_n, qa_n') \<and> up_is_new r_n = Some True"
  then have "qa_n' = qa_n\<lparr>document_store := document_store qa_n',
                          current_document := Some (generated_id pdf_n),
                          conversation_history := []\<rparr>"
    by (auto simp: upload_document_def Let_def upload_failed_def
             split: if_splits sum.splits option.splits prod.splits)
  then have "current_document qa_n' = Some (generated_id pdf_n) \<and> conversation_history qa_n' = []"
    by (metis qa_system.select_convs(4,5) qa_system.surjective qa_system.update_convs(2,4,5))
  then show "current_document qa_n' = Some (generated_id pdf_n)" "conversation_history qa_n' = []"
    by simp_all
next
  assume a: "select_document qa_s d_s = (r_s, qa_s') \<and> sel_success r_s"
  then have "qa_s' = clear_conversation_history (qa_s\<lparr>current_document := Some d_s\<rparr>)"
    by (auto simp: select_document_def Let_def split: option.splits)
  then show "current_document qa_s' = Some d_s" "conversation_history qa_s' = []"
    by (simp_all add: clear_conversation_history_def)
qed

lemma preprocess_notes:
  "preprocess_text ''Lecture notes about graphs.'' = ''Lecture notes about graphs.''"
  by (simp add: preprocess_text_def remove_special_def kept_def is_word_def isspace_def strip_def)

lemma strip_notes: "strip ''Lecture notes about graphs.'' = ''Lecture notes about graphs.''"
  by (simp add: strip_def isspace_def)

lemma chunk_notes: "chunk_text PDFProcessor_init ''Lecture notes about graphs.'' = Some notes_chunks"
  by (simp add: chunk_text_short PDFProcessor_init_def strip_notes notes_chunks_def)

lemma upload_new:
  "\<exists>r qa'. upload_document ok_backend qa_on_b pdf_c None = Some (r, qa') \<and> up_is_new r = Some True"
  by (simp add: upload_document_def Let_def get_document_list_def qa_on_b_def two_doc_store_def
      pdf_c_def preprocess_notes chunk_notes add_document_def ok_backend_def)

lemma select_a:
  "\<exists>r qa'. select_document qa_on_b ''a.pdf_11111111'' = (r, qa') \<and> sel_success r"
  by (simp add: select_document_def Let_def get_document_list_def qa_on_b_def two_doc_store_def)

theorem upload_existing_keeps_history_witness:
  "list_ex (\<lambda>doc. dl_id doc = generated_id pdf_a) (get_document_list (document_store qa_on_b)) \<and>
   current_document qa_on_b = Some ''b.pdf_22222222'' \<and>
   (\<exists>r qa'. upload_document ok_backend qa_on_b pdf_a None = Some (r, qa') \<and>
      up_success r \<and> up_is_new r = Some False \<and>
      current_document qa' = Some ''a.pdf_11111111'' \<and>
      conversation_history qa' = [b_entry]) \<and>
   (\<exists>r qa'. upload_document ok_backend qa_on_b pdf_c None = Some (r, qa') \<and>
      up_is_new r = Some True \<and>
      current_document qa' = Some ''c.pdf_33333333'' \<and> conversation_history qa' = []) \<and>
   (\<exists>r qa'. select_document qa_on_b ''a.pdf_11111111'' = (r, qa') \<and> sel_success r \<and>
      current_document qa' = Some ''a.pdf_11111111'' \<and> conversation_history qa' = [])"
proof -
  have ex: "list_ex (\<lambda>doc. dl_id doc = generated_id pdf_a)
              (get_document_list (document_store qa_on_b))"
    by (simp add: get_document_list_def qa_on_b_def two_doc_store_def pdf_a_def)
  have cur: "current_document qa_on_b = Some ''b.pdf_22222222''"
    and hist: "conversation_history qa_on_b = [b_entry]"
    by (simp_all add: qa_on_b_def)
  obtain r2 qa2' where up: "upload_document ok_backend qa_on_b pdf_c None = Some (r2, qa2')"
    "up_is_new r2 = Some True"
    using upload_new by blast
  obtain r3 qa3' where sel: "select_document qa_on_b ''a.pdf_11111111'' = (r3, qa3')" "sel_success r3"
    using select_a by blast
  have ida: "generated_id pdf_a = ''a.pdf_11111111''" and idc: "generated_id pdf_c = ''c.pdf_33333333''"
    by (simp_all add: pdf_a_def pdf_c_def)
  show ?thesis
    using upload_existing_keeps_history[where pdf = pdf_a and qa = qa_on_b and be = ok_backend
        and title = None and be_n = ok_backend and qa_n = qa_on_b and pdf_n = pdf_c
        and title_n = None and r_n = r2 and qa_n' = qa2' and qa_s = qa_on_b
        and d_s = "''a.pdf_11111111''" and r_s = r3 and qa_s' = qa3']
      ex cur hist up sel ida idc
    by simp
qed

end
